theory Spec2Isabelle
  imports Main
begin

section \<open>The transaction confirmation workflow of web3-core-method\<close>

text \<open>
  A shallow embedding of
  \<^verbatim>\<open>packages/web3-core-method/src/workflows/TransactionConfirmationWorkflow.js\<close>.
  The file runs in strict mode (\<^verbatim>\<open>"use strict"\<close>, line 23). Every function of the
  source, including the anonymous callbacks, is one definition here. What the workflow
  does to its collaborators (provider, head watcher, result object, completion callback)
  is recorded, in order, in a trace; an exception is a value of the completion type.
\<close>

subsection \<open>JavaScript values\<close>

text \<open>
  A transaction receipt as far as the workflow looks into it: the block hash (absent
  until the transaction is mined) and the remaining content, which only the validator
  and the method model read.
\<close>

record receipt =
  blockHash :: "string option"
  body :: string

text \<open>
  The values that flow through the workflow. \<open>VError msg\<close> is \<^verbatim>\<open>new Error(msg)\<close>;
  \<open>VTypeError p\<close> is the TypeError the runtime raises when property \<open>p\<close> is read from
  \<^verbatim>\<open>undefined\<close>, or when \<open>p\<close> is called and is not a function; \<open>VFunction\<close> is a
  callable value without effects. Counters are numbers below \<open>2^53\<close>, where
  \<^verbatim>\<open>++\<close> is exact, so \<open>VNum\<close> carries a natural number.
\<close>

datatype jsval =
    VUndefined
  | VNull
  | VBool bool
  | VNum nat
  | VStr string
  | VReceipt receipt
  | VError string
  | VTypeError string
  | VFunction

text \<open>Truthiness, as \<^verbatim>\<open>if (x)\<close> and \<^verbatim>\<open>x && y\<close> test it.\<close>

fun truthy :: "jsval \<Rightarrow> bool" where
  "truthy VUndefined = False"
| "truthy VNull = False"
| "truthy (VBool b) = b"
| "truthy (VNum n) = (0 < n)"
| "truthy (VStr s) = (0 < length s)"
| "truthy (VReceipt r) = True"
| "truthy (VError m) = True"
| "truthy (VTypeError p) = True"
| "truthy VFunction = True"

text \<open>
  The property read \<^verbatim>\<open>receipt.blockHash\<close> on a truthy value (line 69 reads it only
  behind \<^verbatim>\<open>receipt &&\<close>): a receipt yields its block hash, any other truthy value
  has no such property.
\<close>

fun get_blockHash :: "jsval \<Rightarrow> jsval" where
  "get_blockHash (VReceipt r) = (case blockHash r of None \<Rightarrow> VNull | Some h \<Rightarrow> VStr h)"
| "get_blockHash v = VUndefined"

text \<open>Number to string, as \<^verbatim>\<open>'...' + n + '...'\<close> converts a non-negative integer.\<close>

definition digit_char :: "nat \<Rightarrow> char" where
  "digit_char d = ''0123456789'' ! d"

fun show_nat :: "nat \<Rightarrow> string" where
  "show_nat n = (if n < 10 then [digit_char n] else show_nat (n div 10) @ [digit_char (n mod 10)])"

declare show_nat.simps [simp del]

subsection \<open>The collaborators and the state\<close>

text \<open>
  The fields of TransactionConfirmationModel that the workflow reads and writes:
  \<open>timeoutCounter\<close> (line 83), \<open>confirmationsCount\<close> (line 91), \<open>TIMEOUTBLOCK\<close>
  (line 111) and \<open>POLLINGTIMEOUT\<close> (line 114). The class itself is not among the
  sources verified here; \<open>confirmations\<close> and \<open>requiredConfirmations\<close> are the
  spec's "records the receipt" and "configured target confirmation depth".
\<close>

record transactionConfirmationModel =
  confirmations :: "jsval list"
  confirmationsCount :: nat
  timeoutCounter :: nat
  requiredConfirmations :: nat
  TIMEOUTBLOCK :: nat
  POLLINGTIMEOUT :: nat

text \<open>
  The workflow object \<^verbatim>\<open>self\<close>: what its fields do when called. The constructor
  (lines 37 to 39) assigns the model, the validator and the watcher, \<^verbatim>\<open>execute\<close>
  (lines 63 to 66) the method model, the provider, the result object and the callback.
  \<^item> \<open>validate\<close> is \<^verbatim>\<open>transactionReceiptValidator.validate\<close>: \<^verbatim>\<open>true\<close> or a
    diagnostic value;
  \<^item> \<open>afterExecution\<close> is \<^verbatim>\<open>methodModel.afterExecution\<close>;
  \<^item> \<open>isTimeoutTimeExceeded\<close> is the model's method of that name, a test on the
    counters;
  \<^item> \<open>formatters\<close> is read at line 133 and assigned nowhere in the file: it is
    optional, \<open>Some f\<close> standing for an object whose
    \<^verbatim>\<open>outputTransactionReceiptFormatter\<close> is \<open>f\<close>;
  \<^item> \<open>rejectResult\<close> is the value \<^verbatim>\<open>promiEvent.reject(error)\<close> returns
    (\<^verbatim>\<open>undefined\<close> for the reject function of a Promise).
\<close>

record workflow =
  validate :: "jsval \<Rightarrow> jsval"
  afterExecution :: "jsval \<Rightarrow> jsval"
  isTimeoutTimeExceeded :: "transactionConfirmationModel \<Rightarrow> bool"
  formatters :: "(jsval \<Rightarrow> jsval) option"
  rejectResult :: jsval

text \<open>
  The value of \<^verbatim>\<open>this\<close> inside a function body. A method call \<^verbatim>\<open>o.f(...)\<close> binds
  it to \<^verbatim>\<open>o\<close>; a callback given to \<^verbatim>\<open>.then\<close> is called as a plain function,
  where strict mode leaves \<^verbatim>\<open>this\<close> undefined.
\<close>

datatype this_val = ThisUndefined | ThisWorkflow workflow

text \<open>What the workflow does to its collaborators, one constructor per call.\<close>

datatype effect =
    Send string "jsval list"
  | Watch
  | Stop
  | Resolve jsval
  | Reject jsval
  | Emit string "jsval list"
  | RemoveAllListeners
  | Callback jsval jsval

text \<open>
  The mutable part: the model's counters, whether the head watcher is subscribed and
  delivering (\<open>watching\<close>), its \<open>isPolling\<close> flag, and the trace of effects so far.
\<close>

record state =
  model :: transactionConfirmationModel
  watching :: bool
  isPolling :: bool
  trace :: "effect list"

text \<open>
  How a function body ends: it returns, it throws, or it returns with a receipt request
  outstanding whose continuation has yet to run. For a \<^verbatim>\<open>.then\<close> chain, \<open>Threw e\<close>
  is the rejection of the last promise of the chain, which nothing handles.
\<close>

datatype completion = Returned | Threw jsval | AwaitReceipt

definition perform :: "effect \<Rightarrow> state \<Rightarrow> state" where
  "perform e s = s\<lparr>trace := trace s @ [e]\<rparr>"

text \<open>
  Modelled from the spec: NewHeadsWatcher is not among the sources verified here. The
  spec gives it \<^verbatim>\<open>watch(provider)\<close>, whose emitter delivers "newHead" events:
  the subscription of line 82 starts the notifications.
\<close>

definition watcher_watch :: "state \<Rightarrow> state" where
  "watcher_watch s = perform Watch (s\<lparr>watching := True\<rparr>)"

text \<open>
  Modelled from the spec: NewHeadsWatcher is not among the sources verified here. The
  spec gives it a \<^verbatim>\<open>stop()\<close> method ("stoppable"): the stop ends the
  notifications.
\<close>

definition watcher_stop :: "state \<Rightarrow> state" where
  "watcher_stop s = perform Stop (s\<lparr>watching := False\<rparr>)"

text \<open>
  Modelled from the spec: TransactionConfirmationModel is not among the sources
  verified here. "addConfirmation(receipt) increments the counter and records the
  receipt".
\<close>

definition addConfirmation :: "transactionConfirmationModel \<Rightarrow> jsval \<Rightarrow> transactionConfirmationModel" where
  "addConfirmation m receipt =
     m\<lparr>confirmations := confirmations m @ [receipt], confirmationsCount := confirmationsCount m + 1\<rparr>"

text \<open>
  Modelled from the spec: TransactionConfirmationModel is not among the sources
  verified here. "isConfirmed() returns whether confirmationsCount >=
  requiredConfirmations".
\<close>

definition isConfirmed :: "transactionConfirmationModel \<Rightarrow> bool" where
  "isConfirmed m = (requiredConfirmations m \<le> confirmationsCount m)"

text \<open>
  Modelled from the spec: the constructor of TransactionConfirmationModel is not among
  the sources verified here. Both counters start at 0 and nothing is recorded; the
  required depth and the two thresholds are configured.
\<close>

definition newModel :: "nat \<Rightarrow> nat \<Rightarrow> nat \<Rightarrow> transactionConfirmationModel" where
  "newModel required blocks seconds =
     \<lparr>confirmations = [], confirmationsCount = 0, timeoutCounter = 0,
      requiredConfirmations = required, TIMEOUTBLOCK = blocks, POLLINGTIMEOUT = seconds\<rparr>"

text \<open>The state before \<^verbatim>\<open>execute\<close>: no subscription, nothing done yet.\<close>

definition newState :: "transactionConfirmationModel \<Rightarrow> bool \<Rightarrow> state" where
  "newState m polling = \<lparr>model = m, watching = False, isPolling = polling, trace = []\<rparr>"

subsection \<open>getTransactionReceipt (lines 131 to 135)\<close>

text \<open>
  The call itself, made as a method of the workflow, sends the request:
  \<^verbatim>\<open>this.provider.send('eth_getTransactionReceipt', [transactionHash])\<close>.
\<close>

definition getTransactionReceipt_request :: "string \<Rightarrow> state \<Rightarrow> state" where
  "getTransactionReceipt_request transactionHash s =
     perform (Send ''eth_getTransactionReceipt'' [VStr transactionHash]) s"

text \<open>
  The callback of lines 132 to 134,
  \<^verbatim>\<open>function (receipt) { return this.formatters.outputTransactionReceiptFormatter(receipt); }\<close>:
  \<open>Inr\<close> is the value it returns, \<open>Inl\<close> the value it throws.
\<close>

fun getTransactionReceipt_onResponse :: "this_val \<Rightarrow> jsval \<Rightarrow> jsval + jsval" where
  "getTransactionReceipt_onResponse ThisUndefined receipt = Inl (VTypeError ''formatters'')"
| "getTransactionReceipt_onResponse (ThisWorkflow w) receipt =
     (case formatters w of
        None \<Rightarrow> Inl (VTypeError ''outputTransactionReceiptFormatter'')
      | Some f \<Rightarrow> Inr (f receipt))"

text \<open>
  How the promise returned by \<^verbatim>\<open>getTransactionReceipt\<close> settles, given how the
  provider's promise settles (\<open>Inl\<close> a transport error, \<open>Inr\<close> the raw response, null
  when the node does not know the receipt). \<^verbatim>\<open>.then\<close> with one argument passes a
  rejection on and calls the callback, as a plain function, on fulfilment.
\<close>

definition getTransactionReceipt_settle :: "jsval + jsval \<Rightarrow> jsval + jsval" where
  "getTransactionReceipt_settle response =
     (case response of
        Inl e \<Rightarrow> Inl e
      | Inr raw \<Rightarrow> getTransactionReceipt_onResponse ThisUndefined raw)"

definition getTransactionReceipt :: "string \<Rightarrow> jsval + jsval \<Rightarrow> state \<Rightarrow> (jsval + jsval) \<times> state" where
  "getTransactionReceipt transactionHash response s =
     (getTransactionReceipt_settle response, getTransactionReceipt_request transactionHash s)"

subsection \<open>handleSuccessState (lines 146 to 156) and handleErrorState (lines 167 to 175)\<close>

text \<open>Both are only ever entered as methods of the workflow, which is their \<^verbatim>\<open>this\<close>.\<close>

definition handleSuccessState :: "workflow \<Rightarrow> jsval \<Rightarrow> state \<Rightarrow> completion \<times> state" where
  "handleSuccessState this receipt s =
     (let s1 = watcher_stop s;
          mappedReceipt = afterExecution this receipt;
          s2 = perform (Resolve mappedReceipt) s1;
          s3 = perform (Emit ''receipt'' [mappedReceipt]) s2;
          s4 = perform RemoveAllListeners s3;
          s5 = perform (Callback (VBool False) mappedReceipt) s4
      in (Returned, s5))"

text \<open>
  Line 170 is \<^verbatim>\<open>this.promiEvent.reject(error).apply(error)\<close>: after the reject, the
  property \<^verbatim>\<open>apply\<close> of its result is called. Only a function has one.
\<close>

definition handleErrorState :: "workflow \<Rightarrow> jsval \<Rightarrow> state \<Rightarrow> completion \<times> state" where
  "handleErrorState this error s =
     (let s1 = watcher_stop s;
          s2 = perform (Reject error) s1
      in if rejectResult this = VFunction then
           (let s3 = perform (Emit ''error'' [error]) s2;
                s4 = perform RemoveAllListeners s3;
                s5 = perform (Callback error VNull) s4
            in (Returned, s5))
         else (Threw (VTypeError ''apply''), s2))"

subsection \<open>execute (lines 55 to 120)\<close>

text \<open>
  The callback of lines 85 to 106, run when the re-fetch of a head notification is
  fulfilled with \<open>receipt\<close>. It reads the workflow through \<^verbatim>\<open>self\<close> only.
\<close>

definition newHead_onReceipt :: "workflow \<Rightarrow> jsval \<Rightarrow> state \<Rightarrow> completion \<times> state" where
  "newHead_onReceipt self receipt s =
     (let validationResult = validate self receipt
      in if validationResult = VBool True then
           (let s1 = s\<lparr>model := addConfirmation (model s) receipt\<rparr>;
                s2 = perform (Emit ''confirmation'' [VNum (confirmationsCount (model s1)), receipt]) s1
            in if isConfirmed (model s2) then handleSuccessState self receipt s2
               else (Returned, s2))
         else
           (let s1 = perform (Reject validationResult) s;
                s2 = perform (Emit ''error'' [validationResult, receipt]) s1;
                s3 = perform RemoveAllListeners s2;
                s4 = perform (Callback validationResult VNull) s3
            in (Returned, s4)))"

text \<open>
  The error of lines 111 to 115: the block-count message, replaced by the seconds
  message when the watcher polls. (The second message has no space before the number.)
\<close>

definition timeoutError :: "state \<Rightarrow> jsval" where
  "timeoutError s =
     (let error = VError (''Transaction was not mined within '' @ show_nat (TIMEOUTBLOCK (model s))
            @ '' blocks, please make sure your transaction was properly sent. Be aware that it might still be mined!'');
          error = (if isPolling s then
              VError (''Transaction was not mined within'' @ show_nat (POLLINGTIMEOUT (model s))
                @ '' seconds, please make sure your transaction was properly sent. Be aware that it might still be mined!'')
            else error)
      in error)"

text \<open>
  The "newHead" listener of lines 82 to 118, up to the point where it returns: it counts
  the notification, then either asks for the receipt again (leaving the callback above
  as the continuation) or builds the timeout error and hands it to
  \<^verbatim>\<open>self.handleErrorState\<close>.
\<close>

definition newHead_handler :: "workflow \<Rightarrow> string \<Rightarrow> state \<Rightarrow> completion \<times> state" where
  "newHead_handler self transactionHash s =
     (let s1 = s\<lparr>model := (model s)\<lparr>timeoutCounter := timeoutCounter (model s) + 1\<rparr>\<rparr>
      in if \<not> isTimeoutTimeExceeded self (model s1) then
           (AwaitReceipt, getTransactionReceipt_request transactionHash s1)
         else handleErrorState self (timeoutError s1) s1)"

text \<open>
  The callback of lines 68 to 119, run when the first fetch is fulfilled with
  \<open>receipt\<close>. Lines 70 and 72 go through \<^verbatim>\<open>this\<close>, lines 77 and 82 through
  \<^verbatim>\<open>self\<close>.
\<close>

definition execute_onReceipt :: "this_val \<Rightarrow> workflow \<Rightarrow> jsval \<Rightarrow> state \<Rightarrow> completion \<times> state" where
  "execute_onReceipt this self receipt s =
     (if truthy receipt \<and> truthy (get_blockHash receipt) then
        (case this of
           ThisUndefined \<Rightarrow> (Threw (VTypeError ''transactionReceiptValidator''), s)
         | ThisWorkflow w \<Rightarrow>
             (let validationResult = validate w receipt
              in if validationResult = VBool True then handleSuccessState w receipt s
                 else handleErrorState self validationResult s))
      else (Returned, watcher_watch s))"

text \<open>
  \<^verbatim>\<open>execute\<close> up to the settlement of the first fetch: \<open>response\<close> is how the
  provider's promise for that request settles. The \<^verbatim>\<open>.then\<close> of line 68 has no
  rejection handler.
\<close>

definition execute :: "workflow \<Rightarrow> string \<Rightarrow> jsval + jsval \<Rightarrow> state \<Rightarrow> completion \<times> state" where
  "execute self transactionHash response s =
     (case getTransactionReceipt transactionHash response s of
        (Inl e, s1) \<Rightarrow> (Threw e, s1)
      | (Inr receipt, s1) \<Rightarrow> execute_onReceipt ThisUndefined self receipt s1)"

text \<open>
  One head notification up to the settlement of its re-fetch; the \<^verbatim>\<open>.then\<close> of
  line 85 has no rejection handler either.
\<close>

definition newHead :: "workflow \<Rightarrow> string \<Rightarrow> jsval + jsval \<Rightarrow> state \<Rightarrow> completion \<times> state" where
  "newHead self transactionHash response s =
     (case newHead_handler self transactionHash s of
        (AwaitReceipt, s1) \<Rightarrow>
          (case getTransactionReceipt_settle response of
             Inl e \<Rightarrow> (Threw e, s1)
           | Inr receipt \<Rightarrow> newHead_onReceipt self receipt s1)
      | (Returned, s1) \<Rightarrow> (Returned, s1)
      | (Threw e, s1) \<Rightarrow> (Threw e, s1))"

text \<open>
  Modelled from the spec: NewHeadsWatcher is not among the sources verified here. The
  watcher calls the listener on a new head only between the subscription and the stop;
  the listener is \<open>newHead\<close>, the code as written, and \<open>response\<close> is what the
  provider answers should the listener ask.
\<close>

definition deliver :: "workflow \<Rightarrow> string \<Rightarrow> jsval + jsval \<Rightarrow> state \<Rightarrow> state" where
  "deliver self transactionHash response s =
     (if watching s then snd (newHead self transactionHash response s) else s)"


subsection \<open>Reading a trace\<close>

fun is_Send :: "effect \<Rightarrow> bool" where
  "is_Send (Send m ps) = True"
| "is_Send e = False"

fun is_Resolve :: "effect \<Rightarrow> bool" where
  "is_Resolve (Resolve v) = True"
| "is_Resolve e = False"

fun is_Reject :: "effect \<Rightarrow> bool" where
  "is_Reject (Reject v) = True"
| "is_Reject e = False"

fun is_Emit :: "effect \<Rightarrow> bool" where
  "is_Emit (Emit name args) = True"
| "is_Emit e = False"

fun is_Callback :: "effect \<Rightarrow> bool" where
  "is_Callback (Callback e r) = True"
| "is_Callback e = False"

subsection \<open>Concrete inputs\<close>

text \<open>
  A mined receipt; a workflow whose validator accepts every receipt and one whose
  validator fails every receipt with a diagnostic; both with the timeout test "the
  counter has passed TIMEOUTBLOCK" and with the reject function of a Promise, which
  returns \<^verbatim>\<open>undefined\<close>; a fresh state asking for 3 confirmations.
\<close>

definition mined_receipt :: jsval where
  "mined_receipt = VReceipt \<lparr>blockHash = Some ''0xb1'', body = ''gasUsed 21000''\<rparr>"

definition accepting :: workflow where
  "accepting =
     \<lparr>validate = (\<lambda>receipt. VBool True), afterExecution = (\<lambda>receipt. receipt),
      isTimeoutTimeExceeded = (\<lambda>m. TIMEOUTBLOCK m < timeoutCounter m),
      formatters = None, rejectResult = VUndefined\<rparr>"

definition failing :: workflow where
  "failing =
     \<lparr>validate = (\<lambda>receipt. VStr ''reverted''), afterExecution = (\<lambda>receipt. receipt),
      isTimeoutTimeExceeded = (\<lambda>m. TIMEOUTBLOCK m < timeoutCounter m),
      formatters = None, rejectResult = VUndefined\<rparr>"

definition fresh :: state where
  "fresh = newState (newModel 3 50 750) False"

text \<open>A subscribed listener whose model has one confirmation recorded already.\<close>

definition one_confirmation :: state where
  "one_confirmation =
     \<lparr>model = (newModel 3 50 750)\<lparr>confirmations := [mined_receipt], confirmationsCount := 1,
        timeoutCounter := 1\<rparr>,
      watching = True, isPolling = False, trace = []\<rparr>"

section \<open>Properties\<close>

lemmas workflow_defs =
  perform_def watcher_watch_def watcher_stop_def addConfirmation_def isConfirmed_def
  getTransactionReceipt_request_def getTransactionReceipt_settle_def getTransactionReceipt_def
  handleSuccessState_def handleErrorState_def newHead_onReceipt_def timeoutError_def
  newHead_handler_def execute_onReceipt_def execute_def newHead_def deliver_def

lemmas input_defs = mined_receipt_def accepting_def failing_def fresh_def newModel_def newState_def
  one_confirmation_def

subsection \<open>The receipt fetcher\<close>

text \<open>
  C5. \<^verbatim>\<open>getTransactionReceipt(hash)\<close> sends exactly one request, method
  \<^verbatim>\<open>eth_getTransactionReceipt\<close> with the hash as its single parameter. The claim
  goes on: it applies the output formatter to the raw response and resolves to a
  formatted receipt or to null. The code does not: whatever the provider answers, null
  included, the callback of line 133 reads \<^verbatim>\<open>this.formatters\<close> where
  \<^verbatim>\<open>this\<close> is undefined, so the returned promise is rejected with a TypeError and
  the formatter is never applied. A transport error is passed on as it is.
\<close>

theorem getTransactionReceipt_rejects_every_response:
  "getTransactionReceipt transactionHash (Inr raw) s =
     (Inl (VTypeError ''formatters''),
      s\<lparr>trace := trace s @ [Send ''eth_getTransactionReceipt'' [VStr transactionHash]]\<rparr>)
   \<and> getTransactionReceipt transactionHash (Inl e) s =
     (Inl e,
      s\<lparr>trace := trace s @ [Send ''eth_getTransactionReceipt'' [VStr transactionHash]]\<rparr>)"
  by (simp add: getTransactionReceipt_def getTransactionReceipt_settle_def
      getTransactionReceipt_request_def perform_def)

subsection \<open>The first check\<close>

lemma execute_onReceipt_mined:
  assumes "truthy receipt" and "truthy (get_blockHash receipt)"
  shows "execute_onReceipt ThisUndefined self receipt s =
    (Threw (VTypeError ''transactionReceiptValidator''), s)"
  using assms by (simp add: execute_onReceipt_def)

lemma handleErrorState_not_callable:
  assumes "rejectResult this \<noteq> VFunction"
  shows "handleErrorState this error s =
    (Threw (VTypeError ''apply''), s\<lparr>watching := False, trace := trace s @ [Stop, Reject error]\<rparr>)"
  using assms by (simp add: handleErrorState_def watcher_stop_def perform_def)

text \<open>
  C1. The claim: when the first check finds a mined receipt that passes validation,
  \<^verbatim>\<open>execute\<close> resolves the result object with the mapped receipt, emits one
  "receipt" event and invokes the callback with (false, mappedReceipt) once, without
  subscribing to head notifications. The code does none of the first three. Handed such
  a receipt, the callback of line 68 throws at line 70, where it reads
  \<^verbatim>\<open>this.transactionReceiptValidator\<close> with \<^verbatim>\<open>this\<close> undefined: the trace holds
  the request and nothing else. Run on the fetcher as it is written, \<^verbatim>\<open>execute\<close>
  does not even reach that callback.
\<close>

theorem execute_valid_first_check_throws:
  assumes "truthy receipt" and "truthy (get_blockHash receipt)"
    and "validate self receipt = VBool True"
  shows "execute_onReceipt ThisUndefined self receipt (getTransactionReceipt_request transactionHash s) =
      (Threw (VTypeError ''transactionReceiptValidator''),
       s\<lparr>trace := trace s @ [Send ''eth_getTransactionReceipt'' [VStr transactionHash]]\<rparr>)
    \<and> execute self transactionHash (Inr raw) s =
      (Threw (VTypeError ''formatters''),
       s\<lparr>trace := trace s @ [Send ''eth_getTransactionReceipt'' [VStr transactionHash]]\<rparr>)"
  using assms
  by (simp add: execute_onReceipt_mined execute_def
      getTransactionReceipt_def getTransactionReceipt_settle_def
      getTransactionReceipt_request_def perform_def)

theorem execute_valid_first_check_throws_witness:
  "truthy mined_receipt \<and> truthy (get_blockHash mined_receipt)
   \<and> validate accepting mined_receipt = VBool True
   \<and> execute_onReceipt ThisUndefined accepting mined_receipt (getTransactionReceipt_request ''0x01'' fresh) =
      (Threw (VTypeError ''transactionReceiptValidator''),
       \<lparr>model = newModel 3 50 750, watching = False, isPolling = False,
        trace = [Send ''eth_getTransactionReceipt'' [VStr ''0x01'']]\<rparr>)
   \<and> execute accepting ''0x01'' (Inr mined_receipt) fresh =
      (Threw (VTypeError ''formatters''),
       \<lparr>model = newModel 3 50 750, watching = False, isPolling = False,
        trace = [Send ''eth_getTransactionReceipt'' [VStr ''0x01'']]\<rparr>)"
  using execute_valid_first_check_throws [where receipt = mined_receipt and self = accepting
      and transactionHash = "''0x01''" and raw = mined_receipt and s = fresh]
  by (simp add: input_defs)

text \<open>
  C6. The claim: when the first check finds a mined receipt that fails validation,
  the workflow rejects the result object with the validation error and invokes the
  callback with (validationError, null) once. The code does neither. The callback of
  line 68 throws at line 70 before the validator is called (\<^verbatim>\<open>this\<close> is undefined),
  so line 77 is not reached. And \<^verbatim>\<open>handleErrorState\<close>, had it been called with
  the validation error, rejects but then throws at line 170, where \<^verbatim>\<open>.apply\<close> is
  called on what \<^verbatim>\<open>reject\<close> returned: lines 171 to 174, the callback among them,
  do not run unless \<^verbatim>\<open>reject\<close> returns a function.
\<close>

theorem execute_invalid_first_check_throws:
  assumes "truthy receipt" and "truthy (get_blockHash receipt)"
    and "validate self receipt \<noteq> VBool True" and "rejectResult self \<noteq> VFunction"
  shows "execute_onReceipt ThisUndefined self receipt (getTransactionReceipt_request transactionHash s) =
      (Threw (VTypeError ''transactionReceiptValidator''),
       s\<lparr>trace := trace s @ [Send ''eth_getTransactionReceipt'' [VStr transactionHash]]\<rparr>)
    \<and> handleErrorState self (validate self receipt) s =
      (Threw (VTypeError ''apply''),
       s\<lparr>watching := False, trace := trace s @ [Stop, Reject (validate self receipt)]\<rparr>)"
  using assms
  by (simp add: execute_onReceipt_mined handleErrorState_not_callable
      getTransactionReceipt_request_def perform_def)

theorem execute_invalid_first_check_throws_witness:
  "truthy mined_receipt \<and> truthy (get_blockHash mined_receipt)
   \<and> validate failing mined_receipt \<noteq> VBool True \<and> rejectResult failing \<noteq> VFunction
   \<and> execute_onReceipt ThisUndefined failing mined_receipt (getTransactionReceipt_request ''0x01'' fresh) =
      (Threw (VTypeError ''transactionReceiptValidator''),
       \<lparr>model = newModel 3 50 750, watching = False, isPolling = False,
        trace = [Send ''eth_getTransactionReceipt'' [VStr ''0x01'']]\<rparr>)
   \<and> handleErrorState failing (VStr ''reverted'') fresh =
      (Threw (VTypeError ''apply''),
       \<lparr>model = newModel 3 50 750, watching = False, isPolling = False,
        trace = [Stop, Reject (VStr ''reverted'')]\<rparr>)"
  using execute_invalid_first_check_throws [where receipt = mined_receipt and self = failing
      and transactionHash = "''0x01''" and s = fresh]
  by (simp add: input_defs)

subsection \<open>The head listener and its continuation\<close>

lemma newHead_handler_fetch:
  assumes "\<not> isTimeoutTimeExceeded self ((model s)\<lparr>timeoutCounter := timeoutCounter (model s) + 1\<rparr>)"
  shows "newHead_handler self transactionHash s =
    (AwaitReceipt,
     s\<lparr>model := (model s)\<lparr>timeoutCounter := timeoutCounter (model s) + 1\<rparr>,
       trace := trace s @ [Send ''eth_getTransactionReceipt'' [VStr transactionHash]]\<rparr>)"
  using assms by (simp add: newHead_handler_def getTransactionReceipt_request_def perform_def)

lemma timeoutError_tick [simp]:
  "timeoutError (s\<lparr>model := (model s)\<lparr>timeoutCounter := n\<rparr>\<rparr>) = timeoutError s"
  by (simp add: timeoutError_def)

lemma newHead_handler_timeout:
  assumes "isTimeoutTimeExceeded self ((model s)\<lparr>timeoutCounter := timeoutCounter (model s) + 1\<rparr>)"
  shows "newHead_handler self transactionHash s =
    handleErrorState self (timeoutError s)
      (s\<lparr>model := (model s)\<lparr>timeoutCounter := timeoutCounter (model s) + 1\<rparr>\<rparr>)"
  using assms by (simp add: newHead_handler_def Let_def)

lemma newHead_onReceipt_invalid:
  assumes "validate self receipt \<noteq> VBool True"
  shows "newHead_onReceipt self receipt s =
    (Returned,
     s\<lparr>trace := trace s @
        [Reject (validate self receipt), Emit ''error'' [validate self receipt, receipt],
         RemoveAllListeners, Callback (validate self receipt) VNull]\<rparr>)"
  using assms by (simp add: newHead_onReceipt_def perform_def Let_def)

lemma newHead_onReceipt_valid:
  assumes "validate self receipt = VBool True"
  shows "newHead_onReceipt self receipt s =
    (Returned,
     s\<lparr>model := addConfirmation (model s) receipt,
       watching := (if requiredConfirmations (model s) \<le> confirmationsCount (model s) + 1
                    then False else watching s),
       trace := trace s @
        Emit ''confirmation'' [VNum (confirmationsCount (model s) + 1), receipt] #
        (if requiredConfirmations (model s) \<le> confirmationsCount (model s) + 1
         then [Stop, Resolve (afterExecution self receipt),
               Emit ''receipt'' [afterExecution self receipt], RemoveAllListeners,
               Callback (VBool False) (afterExecution self receipt)]
         else [])\<rparr>)"
  using assms
  by (simp add: newHead_onReceipt_def handleSuccessState_def watcher_stop_def perform_def
      addConfirmation_def isConfirmed_def Let_def)

lemma handleErrorState_trace:
  "\<exists>rest. trace (snd (handleErrorState this error s)) = trace s @ [Stop, Reject error] @ rest
     \<and> filter is_Reject rest = []"
  by (simp add: handleErrorState_def watcher_stop_def perform_def Let_def)

lemma handleErrorState_stops: "\<not> watching (snd (handleErrorState this error s))"
  by (simp add: handleErrorState_def watcher_stop_def perform_def Let_def)





lemma show_nat_50: "show_nat 50 = ''50''"
  by (simp add: show_nat.simps [of 50] show_nat.simps [of 5] digit_char_def)

lemma show_nat_750: "show_nat 750 = ''750''"
  by (simp add: show_nat.simps [of 750] show_nat.simps [of 75] show_nat.simps [of 7] digit_char_def)


lemma execute_on_response:
  "execute self transactionHash (Inr raw) s =
     (Threw (VTypeError ''formatters''),
      s\<lparr>trace := trace s @ [Send ''eth_getTransactionReceipt'' [VStr transactionHash]]\<rparr>)"
  by (simp add: execute_def getTransactionReceipt_def getTransactionReceipt_settle_def
      getTransactionReceipt_request_def perform_def)

lemma newHead_on_response:
  assumes "\<not> isTimeoutTimeExceeded self ((model s)\<lparr>timeoutCounter := timeoutCounter (model s) + 1\<rparr>)"
  shows "newHead self transactionHash (Inr raw) s =
    (Threw (VTypeError ''formatters''),
     s\<lparr>model := (model s)\<lparr>timeoutCounter := timeoutCounter (model s) + 1\<rparr>,
       trace := trace s @ [Send ''eth_getTransactionReceipt'' [VStr transactionHash]]\<rparr>)"
  using assms
  by (simp add: newHead_def newHead_handler_fetch getTransactionReceipt_settle_def)

lemma newHead_timeout_not_callable:
  assumes "isTimeoutTimeExceeded self ((model s)\<lparr>timeoutCounter := timeoutCounter (model s) + 1\<rparr>)"
    and "rejectResult self \<noteq> VFunction"
  shows "newHead_handler self transactionHash s =
    (Threw (VTypeError ''apply''),
     s\<lparr>model := (model s)\<lparr>timeoutCounter := timeoutCounter (model s) + 1\<rparr>,
       watching := False, trace := trace s @ [Stop, Reject (timeoutError s)]\<rparr>)"
  using assms by (simp add: newHead_handler_timeout handleErrorState_not_callable)










text \<open>
  C8. The claim: when the timeout test holds on a head notification, the workflow goes
  to the terminal timeout state through the failure path, with a synthesized error
  whose message counts blocks when \<open>isPolling\<close> is false and seconds when it is
  true. The error is built as claimed, and \<^verbatim>\<open>handleErrorState\<close> stops the watcher
  and rejects the result object with it. The failure path ends there: line 170 calls
  \<^verbatim>\<open>.apply\<close> on what \<^verbatim>\<open>reject\<close> returned and throws unless that is a
  function, so no "error" event is emitted, the listeners are not removed and the
  callback is not invoked. And the listener is never subscribed in the first place:
  \<^verbatim>\<open>execute\<close> ends at line 133 whatever the provider answers. (For counters
  below \<open>2^53\<close> and thresholds below \<open>10^21\<close>, where \<^verbatim>\<open>++\<close> and the
  conversion of a number to a string are what the definitions say.)
\<close>

theorem newHead_timeout_failure_path_throws:
  assumes "isTimeoutTimeExceeded self ((model s)\<lparr>timeoutCounter := timeoutCounter (model s) + 1\<rparr>)"
    and "rejectResult self \<noteq> VFunction"
    and "timeoutCounter (model s) < 2 ^ 53"
    and "TIMEOUTBLOCK (model s) < 10 ^ 21" and "POLLINGTIMEOUT (model s) < 10 ^ 21"
  shows "newHead_handler self transactionHash s =
      (Threw (VTypeError ''apply''),
       s\<lparr>model := (model s)\<lparr>timeoutCounter := timeoutCounter (model s) + 1\<rparr>,
         watching := False, trace := trace s @ [Stop, Reject (timeoutError s)]\<rparr>)
    \<and> newHead self transactionHash response s =
      (Threw (VTypeError ''apply''),
       s\<lparr>model := (model s)\<lparr>timeoutCounter := timeoutCounter (model s) + 1\<rparr>,
         watching := False, trace := trace s @ [Stop, Reject (timeoutError s)]\<rparr>)
    \<and> timeoutError s =
        (if isPolling s then
           VError (''Transaction was not mined within'' @ show_nat (POLLINGTIMEOUT (model s))
             @ '' seconds, please make sure your transaction was properly sent. Be aware that it might still be mined!'')
         else
           VError (''Transaction was not mined within '' @ show_nat (TIMEOUTBLOCK (model s))
             @ '' blocks, please make sure your transaction was properly sent. Be aware that it might still be mined!''))
    \<and> execute self transactionHash (Inr raw) t =
      (Threw (VTypeError ''formatters''),
       t\<lparr>trace := trace t @ [Send ''eth_getTransactionReceipt'' [VStr transactionHash]]\<rparr>)"
  using assms(1,2)
  by (simp add: newHead_def newHead_timeout_not_callable execute_on_response timeoutError_def)

theorem newHead_timeout_failure_path_throws_witness:
  "isTimeoutTimeExceeded accepting ((newModel 3 50 750)\<lparr>timeoutCounter := 51\<rparr>)
   \<and> rejectResult accepting \<noteq> VFunction
   \<and> newHead accepting ''0x01'' (Inr VNull)
       (\<lparr>model = (newModel 3 50 750)\<lparr>timeoutCounter := 50\<rparr>, watching = True, isPolling = False,
         trace = []\<rparr>) =
     (Threw (VTypeError ''apply''),
      \<lparr>model = (newModel 3 50 750)\<lparr>timeoutCounter := 51\<rparr>, watching = False, isPolling = False,
       trace = [Stop, Reject (VError ''Transaction was not mined within 50 blocks, please make sure your transaction was properly sent. Be aware that it might still be mined!'')]\<rparr>)
   \<and> isTimeoutTimeExceeded accepting ((newModel 3 50 750)\<lparr>timeoutCounter := 751\<rparr>)
   \<and> newHead accepting ''0x01'' (Inr VNull)
       (\<lparr>model = (newModel 3 50 750)\<lparr>timeoutCounter := 750\<rparr>, watching = True, isPolling = True,
         trace = []\<rparr>) =
     (Threw (VTypeError ''apply''),
      \<lparr>model = (newModel 3 50 750)\<lparr>timeoutCounter := 751\<rparr>, watching = False, isPolling = True,
       trace = [Stop, Reject (VError ''Transaction was not mined within750 seconds, please make sure your transaction was properly sent. Be aware that it might still be mined!'')]\<rparr>)
   \<and> execute accepting ''0x01'' (Inr VNull) fresh =
      (Threw (VTypeError ''formatters''),
       \<lparr>model = newModel 3 50 750, watching = False, isPolling = False,
        trace = [Send ''eth_getTransactionReceipt'' [VStr ''0x01'']]\<rparr>)"
  using newHead_timeout_failure_path_throws [where self = accepting and transactionHash = "''0x01''" and response = "Inr VNull"
        and raw = VNull and t = fresh
        and s = "\<lparr>model = (newModel 3 50 750)\<lparr>timeoutCounter := 50\<rparr>, watching = True,
                  isPolling = False, trace = []\<rparr>"]
    newHead_timeout_failure_path_throws [where self = accepting and transactionHash = "''0x01''" and response = "Inr VNull"
        and raw = VNull and t = fresh
        and s = "\<lparr>model = (newModel 3 50 750)\<lparr>timeoutCounter := 750\<rparr>, watching = True,
                  isPolling = True, trace = []\<rparr>"]
  by (simp add: input_defs show_nat_50 show_nat_750)

text \<open>
  C9. The claim: for a transaction not mined on the first check, each head
  notification triggers exactly one re-fetch; if the re-fetched receipt validates, the
  confirmation count grows by 1 and one "confirmation" event carries the new count and
  the receipt; the workflow resolves only when the count has reached the required
  depth. The code: when the first check finds nothing (the provider answers null),
  \<^verbatim>\<open>execute\<close> ends at line 133 and subscribes no listener, so a head notification
  triggers nothing. The listener as written does send the one request, but when the
  provider answers with a receipt the validator accepts, the promise of the re-fetch is
  rejected at line 133 all the same: the continuation of line 85 does not run, the count
  stays where it was and no "confirmation" event is emitted.
\<close>

theorem newHead_refetch_never_continues:
  assumes "\<not> isTimeoutTimeExceeded self ((model s)\<lparr>timeoutCounter := timeoutCounter (model s) + 1\<rparr>)"
    and "validate self receipt = VBool True"
    and "timeoutCounter (model s) < 2 ^ 53"
  shows "execute self transactionHash (Inr VNull) t =
      (Threw (VTypeError ''formatters''),
       t\<lparr>trace := trace t @ [Send ''eth_getTransactionReceipt'' [VStr transactionHash]]\<rparr>)
    \<and> newHead self transactionHash (Inr receipt) s =
      (Threw (VTypeError ''formatters''),
       s\<lparr>model := (model s)\<lparr>timeoutCounter := timeoutCounter (model s) + 1\<rparr>,
         trace := trace s @ [Send ''eth_getTransactionReceipt'' [VStr transactionHash]]\<rparr>)
    \<and> confirmationsCount (model (snd (newHead self transactionHash (Inr receipt) s))) =
        confirmationsCount (model s)
    \<and> filter is_Emit (trace (snd (newHead self transactionHash (Inr receipt) s))) =
        filter is_Emit (trace s)"
  using assms(1)
  by (simp add: execute_on_response newHead_on_response)

theorem newHead_refetch_never_continues_witness:
  "\<not> isTimeoutTimeExceeded accepting ((newModel 3 50 750)\<lparr>timeoutCounter := 1\<rparr>)
   \<and> validate accepting mined_receipt = VBool True
   \<and> execute accepting ''0x01'' (Inr VNull) fresh =
      (Threw (VTypeError ''formatters''),
       \<lparr>model = newModel 3 50 750, watching = False, isPolling = False,
        trace = [Send ''eth_getTransactionReceipt'' [VStr ''0x01'']]\<rparr>)
   \<and> newHead accepting ''0x01'' (Inr mined_receipt) (fresh\<lparr>watching := True\<rparr>) =
      (Threw (VTypeError ''formatters''),
       \<lparr>model = (newModel 3 50 750)\<lparr>timeoutCounter := 1\<rparr>, watching = True, isPolling = False,
        trace = [Send ''eth_getTransactionReceipt'' [VStr ''0x01'']]\<rparr>)
   \<and> confirmationsCount (model (snd (newHead accepting ''0x01'' (Inr mined_receipt)
        (fresh\<lparr>watching := True\<rparr>)))) = 0
   \<and> filter is_Emit (trace (snd (newHead accepting ''0x01'' (Inr mined_receipt)
        (fresh\<lparr>watching := True\<rparr>)))) = []"
  using newHead_refetch_never_continues [where self = accepting and transactionHash = "''0x01''" and receipt = mined_receipt
      and t = fresh and s = "fresh\<lparr>watching := True\<rparr>"]
  by (simp add: input_defs)

text \<open>
  C10. On the head notification whose validated receipt brings the count up to
  \<open>requiredConfirmations\<close>, the "confirmation" event with the final count is
  emitted first and the success handling runs after it: the result object sees that
  event and then, after the resolve, a "receipt" event for the same receipt as the
  method model maps it.
\<close>

theorem confirmation_before_receipt:
  assumes "validate self receipt = VBool True"
    and "requiredConfirmations (model s) \<le> confirmationsCount (model s) + 1"
  shows "trace (snd (newHead_onReceipt self receipt s)) =
      trace s @
      [Emit ''confirmation'' [VNum (confirmationsCount (model s) + 1), receipt],
       Stop, Resolve (afterExecution self receipt),
       Emit ''receipt'' [afterExecution self receipt], RemoveAllListeners,
       Callback (VBool False) (afterExecution self receipt)]"
  using assms by (simp add: newHead_onReceipt_valid)

theorem confirmation_before_receipt_witness:
  "validate accepting mined_receipt = VBool True
   \<and> requiredConfirmations (model (fresh\<lparr>model := (model fresh)\<lparr>confirmationsCount := 2\<rparr>\<rparr>))
       \<le> confirmationsCount (model (fresh\<lparr>model := (model fresh)\<lparr>confirmationsCount := 2\<rparr>\<rparr>)) + 1
   \<and> trace (snd (newHead_onReceipt accepting mined_receipt
        (fresh\<lparr>model := (model fresh)\<lparr>confirmationsCount := 2\<rparr>\<rparr>))) =
      [Emit ''confirmation'' [VNum 3, mined_receipt],
       Stop, Resolve mined_receipt, Emit ''receipt'' [mined_receipt], RemoveAllListeners,
       Callback (VBool False) mined_receipt]"
  using confirmation_before_receipt [where self = accepting and receipt = mined_receipt
      and s = "fresh\<lparr>model := (model fresh)\<lparr>confirmationsCount := 2\<rparr>\<rparr>"]
  by (simp add: input_defs)

subsection \<open>Failures\<close>

text \<open>
  C3. The claim: every failure kind (transport error, validation failure on the first
  check or on a later re-fetch, timeout) goes through one terminal failure handling,
  with one reject, one "error" emission, one callback invocation with (error, null),
  removal of all listeners and a stop of the watcher. The code has no such common
  path: a transport error meets no handler at all. As amended, by kind:
  \<^item> a validation failure found by a head-triggered re-fetch is handled in place
    (lines 102 to 105) with exactly one reject, one "error" emission carrying the
    failure and the receipt, removal of all listeners and one callback invocation with
    (failure, null);
  \<^item> a timeout goes through \<^verbatim>\<open>handleErrorState\<close>, which stops the watcher and
    rejects the result object exactly once, with the timeout error;
  \<^item> a transport error, on the first fetch or on a re-fetch, gets no failure handling:
    the request is the only effect.
\<close>

theorem failure_handling_by_kind:
  "(validate self receipt \<noteq> VBool True \<longrightarrow>
      newHead_onReceipt self receipt s =
        (Returned,
         s\<lparr>trace := trace s @
            [Reject (validate self receipt), Emit ''error'' [validate self receipt, receipt],
             RemoveAllListeners, Callback (validate self receipt) VNull]\<rparr>))
   \<and> (isTimeoutTimeExceeded self ((model s)\<lparr>timeoutCounter := timeoutCounter (model s) + 1\<rparr>) \<longrightarrow>
      (\<exists>rest. trace (snd (newHead_handler self transactionHash s)) =
          trace s @ [Stop, Reject (timeoutError s)] @ rest \<and> filter is_Reject rest = [])
      \<and> \<not> watching (snd (newHead_handler self transactionHash s)))
   \<and> trace (snd (execute self transactionHash (Inl e) s)) =
        trace s @ [Send ''eth_getTransactionReceipt'' [VStr transactionHash]]
   \<and> (\<not> isTimeoutTimeExceeded self ((model s)\<lparr>timeoutCounter := timeoutCounter (model s) + 1\<rparr>) \<longrightarrow>
      trace (snd (newHead self transactionHash (Inl e) s)) =
        trace s @ [Send ''eth_getTransactionReceipt'' [VStr transactionHash]])"
proof -
  have timeout: "(\<exists>rest. trace (snd (newHead_handler self transactionHash s)) =
          trace s @ [Stop, Reject (timeoutError s)] @ rest \<and> filter is_Reject rest = [])
      \<and> \<not> watching (snd (newHead_handler self transactionHash s))"
    if exceeded: "isTimeoutTimeExceeded self ((model s)\<lparr>timeoutCounter := timeoutCounter (model s) + 1\<rparr>)"
    unfolding newHead_handler_timeout [OF exceeded]
    using handleErrorState_trace [where this = self and error = "timeoutError s"
        and s = "s\<lparr>model := (model s)\<lparr>timeoutCounter := timeoutCounter (model s) + 1\<rparr>\<rparr>"]
    by (simp add: handleErrorState_stops)
  show ?thesis
    using timeout
    by (simp add: newHead_onReceipt_invalid execute_def getTransactionReceipt_def
        getTransactionReceipt_settle_def getTransactionReceipt_request_def perform_def
        newHead_def newHead_handler_fetch)
qed

theorem failure_handling_by_kind_witness:
  "validate failing mined_receipt \<noteq> VBool True
   \<and> newHead_onReceipt failing mined_receipt fresh =
       (Returned,
        \<lparr>model = newModel 3 50 750, watching = False, isPolling = False,
         trace = [Reject (VStr ''reverted''), Emit ''error'' [VStr ''reverted'', mined_receipt],
                  RemoveAllListeners, Callback (VStr ''reverted'') VNull]\<rparr>)
   \<and> isTimeoutTimeExceeded failing ((newModel 3 50 750)\<lparr>timeoutCounter := 51\<rparr>)
   \<and> (\<exists>rest. trace (snd (newHead_handler failing ''0x01''
            (newState ((newModel 3 50 750)\<lparr>timeoutCounter := 50\<rparr>) False))) =
          [Stop, Reject (VError ''Transaction was not mined within 50 blocks, please make sure your transaction was properly sent. Be aware that it might still be mined!'')] @ rest
        \<and> filter is_Reject rest = [])
   \<and> \<not> watching (snd (newHead_handler failing ''0x01''
            (newState ((newModel 3 50 750)\<lparr>timeoutCounter := 50\<rparr>) False)))
   \<and> trace (snd (execute failing ''0x01'' (Inl (VError ''socket closed'')) fresh)) =
       [Send ''eth_getTransactionReceipt'' [VStr ''0x01'']]
   \<and> \<not> isTimeoutTimeExceeded failing ((newModel 3 50 750)\<lparr>timeoutCounter := 1\<rparr>)
   \<and> trace (snd (newHead failing ''0x01'' (Inl (VError ''socket closed'')) fresh)) =
       [Send ''eth_getTransactionReceipt'' [VStr ''0x01'']]"
  using failure_handling_by_kind [where self = failing and transactionHash = "''0x01''"
        and receipt = mined_receipt and e = "VError ''socket closed''" and s = fresh]
    failure_handling_by_kind [where self = failing and transactionHash = "''0x01''"
        and receipt = mined_receipt and e = "VError ''socket closed''"
        and s = "newState ((newModel 3 50 750)\<lparr>timeoutCounter := 50\<rparr>) False"]
  by (simp add: input_defs timeoutError_def show_nat_50)

text \<open>
  The first fetch of \<^verbatim>\<open>execute\<close> fails in the transport. The request is all the
  workflow does: no reject, no "error" emission, no removal of listeners, no callback
  invocation, no stop of the watcher.
\<close>

theorem transport_error_no_failure_handling_counterexample:
  "trace (snd (execute failing ''0x02'' (Inl (VError ''socket closed'')) fresh)) =
     [Send ''eth_getTransactionReceipt'' [VStr ''0x02'']]
   \<and> length (filter is_Reject
        (trace (snd (execute failing ''0x02'' (Inl (VError ''socket closed'')) fresh)))) = 0
   \<and> length (filter is_Emit
        (trace (snd (execute failing ''0x02'' (Inl (VError ''socket closed'')) fresh)))) = 0
   \<and> length (filter is_Callback
        (trace (snd (execute failing ''0x02'' (Inl (VError ''socket closed'')) fresh)))) = 0"
  by (simp add: workflow_defs input_defs Let_def)

text \<open>
  C4. The claim: no exception escapes the workflow; every failure is surfaced through
  the reject of the result object and the completion callback. The promise chains of
  lines 68 and 85 have no rejection handler, so this does not hold for a failure of the
  fetch. As amended: when \<^verbatim>\<open>provider.send\<close> fails with a transport error, on the
  first fetch or on a re-fetch, the workflow neither rejects the result object nor
  invokes the callback; the error stays the rejection of the promise chain, which
  nothing handles.
\<close>

theorem transport_error_unhandled:
  "execute self transactionHash (Inl e) s =
     (Threw e, s\<lparr>trace := trace s @ [Send ''eth_getTransactionReceipt'' [VStr transactionHash]]\<rparr>)
   \<and> (\<not> isTimeoutTimeExceeded self ((model s)\<lparr>timeoutCounter := timeoutCounter (model s) + 1\<rparr>) \<longrightarrow>
      newHead self transactionHash (Inl e) s =
        (Threw e,
         s\<lparr>model := (model s)\<lparr>timeoutCounter := timeoutCounter (model s) + 1\<rparr>,
           trace := trace s @ [Send ''eth_getTransactionReceipt'' [VStr transactionHash]]\<rparr>))"
  by (simp add: execute_def getTransactionReceipt_def getTransactionReceipt_settle_def
      getTransactionReceipt_request_def perform_def newHead_def newHead_handler_fetch)

theorem transport_error_unhandled_witness:
  "execute accepting ''0x01'' (Inl (VError ''connection refused'')) fresh =
     (Threw (VError ''connection refused''),
      \<lparr>model = newModel 3 50 750, watching = False, isPolling = False,
       trace = [Send ''eth_getTransactionReceipt'' [VStr ''0x01'']]\<rparr>)
   \<and> \<not> isTimeoutTimeExceeded accepting ((newModel 3 50 750)\<lparr>timeoutCounter := 1\<rparr>)
   \<and> newHead accepting ''0x01'' (Inl (VError ''connection refused'')) fresh =
     (Threw (VError ''connection refused''),
      \<lparr>model = (newModel 3 50 750)\<lparr>timeoutCounter := 1\<rparr>, watching = False, isPolling = False,
       trace = [Send ''eth_getTransactionReceipt'' [VStr ''0x01'']]\<rparr>)"
  using transport_error_unhandled [where self = accepting and transactionHash = "''0x01''"
      and e = "VError ''connection refused''" and s = fresh]
  by (simp add: input_defs)

text \<open>
  The first fetch fails in the transport: the chain ends rejected with the transport
  error, and the trace holds neither a reject nor a callback invocation.
\<close>

theorem transport_error_first_fetch_counterexample:
  "fst (execute accepting ''0x01'' (Inl (VError ''connection refused'')) fresh) =
     Threw (VError ''connection refused'')
   \<and> filter is_Reject (trace (snd (execute accepting ''0x01''
        (Inl (VError ''connection refused'')) fresh))) = []
   \<and> filter is_Callback (trace (snd (execute accepting ''0x01''
        (Inl (VError ''connection refused'')) fresh))) = []"
  by (simp add: workflow_defs input_defs Let_def)

end
